theory Spec2Isabelle
  imports Main "HOL-Library.Word"
begin

unbundle bit_operations_syntax

section \<open>Cells and tags\<close>

text \<open>
  A \<^verbatim>\<open>Cell\<close> of \<^verbatim>\<open>clamb.c\<close> is a machine word whose low bits are a tag. The five
  tag patterns are the five constructors below: a pair carries the index of its
  two-field record in memory (pointer arithmetic \<^verbatim>\<open>a+1\<close> is the next record), the
  other variants carry their payload. The payload of an integer cell is 30 bits wide
  (\<^verbatim>\<open>mkint\<close> shifts left by two and \<^verbatim>\<open>intof\<close> shifts back arithmetically), which
  \<open>mkint\<close> writes out.
\<close>

datatype cell = PairC nat | IntC int | CombC nat | CharC int | ImmC nat

type_synonym byte = "8 word"

fun ispair :: "cell \<Rightarrow> bool" where
  "ispair (PairC a) = True"
| "ispair c = False"

fun isint :: "cell \<Rightarrow> bool" where
  "isint (IntC n) = True"
| "isint c = False"

fun iscomb :: "cell \<Rightarrow> bool" where
  "iscomb (CombC n) = True"
| "iscomb c = False"

fun ischar :: "cell \<Rightarrow> bool" where
  "ischar (CharC n) = True"
| "ischar c = False"

fun isimm :: "cell \<Rightarrow> bool" where
  "isimm (ImmC n) = True"
| "isimm c = False"

definition mkint :: "int \<Rightarrow> cell" where
  "mkint n = IntC (signed_take_bit 29 n)"

fun intof :: "cell \<Rightarrow> int" where
  "intof (IntC n) = n"
| "intof c = 0"

definition mkchar :: "int \<Rightarrow> cell" where
  "mkchar n = CharC n"

fun charof :: "cell \<Rightarrow> int" where
  "charof (CharC n) = n"
| "charof c = 0"

abbreviation COMB_S :: cell where "COMB_S \<equiv> CombC 0"
abbreviation COMB_K :: cell where "COMB_K \<equiv> CombC 1"
abbreviation COMB_I :: cell where "COMB_I \<equiv> CombC 2"
abbreviation COMB_B :: cell where "COMB_B \<equiv> CombC 3"
abbreviation COMB_C :: cell where "COMB_C \<equiv> CombC 4"
abbreviation COMB_SP :: cell where "COMB_SP \<equiv> CombC 5"
abbreviation COMB_BS :: cell where "COMB_BS \<equiv> CombC 6"
abbreviation COMB_CP :: cell where "COMB_CP \<equiv> CombC 7"
abbreviation COMB_IOTA :: cell where "COMB_IOTA \<equiv> CombC 8"
abbreviation COMB_KI :: cell where "COMB_KI \<equiv> CombC 9"
abbreviation COMB_READ :: cell where "COMB_READ \<equiv> CombC 10"
abbreviation COMB_WRITE :: cell where "COMB_WRITE \<equiv> CombC 11"
abbreviation COMB_INC :: cell where "COMB_INC \<equiv> CombC 12"
abbreviation COMB_CONS :: cell where "COMB_CONS \<equiv> CombC 13"
abbreviation COMB_PUTC :: cell where "COMB_PUTC \<equiv> CombC 14"
abbreviation COMB_RETURN :: cell where "COMB_RETURN \<equiv> CombC 15"

abbreviation NIL :: cell where "NIL \<equiv> ImmC 0"
abbreviation COPIED :: cell where "COPIED \<equiv> ImmC 1"
abbreviation UNUSED_MARKER :: cell where "UNUSED_MARKER \<equiv> ImmC 2"
abbreviation LAMBDA :: cell where "LAMBDA \<equiv> ImmC 3"

section \<open>Errors and results\<close>

text \<open>
  Every way in which a C function does not return normally is a value: the calls of
  \<^verbatim>\<open>errexit\<close> (one constructor for each message), a failed \<^verbatim>\<open>assert\<close>, an
  access outside an object (\<open>Undefined\<close>: a read of a stack slot that does not
  exist, \<^verbatim>\<open>car\<close> of a cell that is no pair, a copy beyond the end of the to-space),
  and the end of the fuel that bounds the loops and recursions which need not end.
\<close>

datatype error =
    CannotAllocate nat
  | StackOverflow
  | CannotOpen
  | UnexpectedEOF
  | NotANumber
  | InvalidCharacter int
  | IncNonNumber
  | ApplyNumber
  | AssertPair
  | AssertAlloc
  | Undefined
  | OutOfFuel

fun message :: "error \<Rightarrow> string" where
  "message (CannotAllocate n) = ''Cannot allocate heap storage (%d cells)''"
| "message StackOverflow = ''runtime error: stack overflow''"
| "message CannotOpen = ''cannot open %s''"
| "message UnexpectedEOF = ''unexpected EOF''"
| "message NotANumber = ''invalid output format (result was not a number)''"
| "message (InvalidCharacter n) = ''invalid character %d''"
| "message IncNonNumber = ''invalid output format (attempted to apply inc to a non-number)''"
| "message ApplyNumber = ''invalid output format (attempted to apply a number)''"
| "message AssertPair = ''Assertion failed: free_ptr < heap_area''"
| "message AssertAlloc = ''Assertion failed: free_ptr + n <= heap_area''"
| "message Undefined = ''''"
| "message OutOfFuel = ''''"

fun bnd :: "error + 'a \<Rightarrow> ('a \<Rightarrow> error + 'b) \<Rightarrow> error + 'b" where
  "bnd (Inl e) f = Inl e"
| "bnd (Inr x) f = f x"

section \<open>The machine state\<close>

text \<open>
  All global variables of the program in one record. Memory is a map from record
  indices to the two fields of a \<^verbatim>\<open>Pair\<close>; \<^verbatim>\<open>malloc\<close> hands out the indices from
  \<open>brk\<close> upwards and fails beyond \<open>mem_limit\<close>; \<^verbatim>\<open>free\<close> gives nothing back.
  The reduction stack is the list of its live slots, \<^verbatim>\<open>TOP\<close> first, so that
  \<^verbatim>\<open>rd_stack.sp\<close> is \<open>RDSTACK_SIZE - length (stack st)\<close>. The input is the list of
  the files named on the command line from the current one on (\<open>None\<close> for a file
  that cannot be opened), the unread bytes of the open handle, and those of the
  standard input while a named file is open.
\<close>

record machine =
  mem :: "nat \<Rightarrow> cell \<times> cell"
  brk :: nat
  mem_limit :: nat
  heap_area :: nat
  free_ptr :: nat
  heap_size :: nat
  next_heap_size :: nat
  free_area :: "nat option"
  stack :: "cell list"
  input_argv :: "byte list option list"
  input_fp :: "byte list"
  stdin :: "byte list"
  input_ch :: int
  input_bit :: int
  stdout :: "byte list"
  reductions :: nat

definition RDSTACK_SIZE :: nat where
  "RDSTACK_SIZE = 100000"

definition INITIAL_HEAP_SIZE :: nat where
  "INITIAL_HEAP_SIZE = 128 * 1024"

subsection \<open>Pairs in memory\<close>

fun car :: "cell \<Rightarrow> machine \<Rightarrow> error + cell" where
  "car (PairC a) st = Inr (fst (mem st a))"
| "car c st = Inl Undefined"

fun cdr :: "cell \<Rightarrow> machine \<Rightarrow> error + cell" where
  "cdr (PairC a) st = Inr (snd (mem st a))"
| "cdr c st = Inl Undefined"

fun set_car :: "cell \<Rightarrow> cell \<Rightarrow> machine \<Rightarrow> error + machine" where
  "set_car (PairC a) x st = Inr (st\<lparr>mem := (mem st)(a := (x, snd (mem st a)))\<rparr>)"
| "set_car c x st = Inl Undefined"

fun set_cdr :: "cell \<Rightarrow> cell \<Rightarrow> machine \<Rightarrow> error + machine" where
  "set_cdr (PairC a) y st = Inr (st\<lparr>mem := (mem st)(a := (fst (mem st a), y))\<rparr>)"
| "set_cdr c y st = Inl Undefined"

text \<open>
  \<^verbatim>\<open>SET(c,fst,snd)\<close> is a macro: it stores \<^verbatim>\<open>fst\<close>, and only then evaluates and
  stores \<^verbatim>\<open>snd\<close>. The operands are therefore expressions over the state.
\<close>

definition val :: "cell \<Rightarrow> machine \<Rightarrow> error + cell" where
  "val c st = Inr c"

definition SET ::
  "cell \<Rightarrow> (machine \<Rightarrow> error + cell) \<Rightarrow> (machine \<Rightarrow> error + cell) \<Rightarrow> machine \<Rightarrow> error + machine"
where
  "SET c x y st =
     bnd (x st) (\<lambda>a. bnd (set_car c a st) (\<lambda>st1.
     bnd (y st1) (\<lambda>d. set_cdr c d st1)))"

fun offs :: "cell \<Rightarrow> nat \<Rightarrow> cell" where
  "offs (PairC a) k = PairC (a + k)"
| "offs c k = c"

subsection \<open>The reduction stack\<close>

definition rs_push :: "cell \<Rightarrow> machine \<Rightarrow> error + machine" where
  "rs_push c st =
     (if RDSTACK_SIZE \<le> length (stack st) then Inl StackOverflow
      else Inr (st\<lparr>stack := c # stack st\<rparr>))"

abbreviation PUSH :: "cell \<Rightarrow> machine \<Rightarrow> error + machine" where
  "PUSH \<equiv> rs_push"

definition PUSHED :: "nat \<Rightarrow> machine \<Rightarrow> error + cell" where
  "PUSHED k st = (if k < length (stack st) then Inr (stack st ! k) else Inl Undefined)"

abbreviation TOP :: "machine \<Rightarrow> error + cell" where
  "TOP \<equiv> PUSHED 0"

definition set_PUSHED :: "nat \<Rightarrow> cell \<Rightarrow> machine \<Rightarrow> error + machine" where
  "set_PUSHED k c st =
     (if k < length (stack st) then Inr (st\<lparr>stack := (stack st)[k := c]\<rparr>)
      else Inl Undefined)"

abbreviation set_TOP :: "cell \<Rightarrow> machine \<Rightarrow> error + machine" where
  "set_TOP \<equiv> set_PUSHED 0"

definition DROP :: "nat \<Rightarrow> machine \<Rightarrow> error + machine" where
  "DROP k st =
     (if k \<le> length (stack st) then Inr (st\<lparr>stack := drop k (stack st)\<rparr>)
      else Inl Undefined)"

definition POP :: "machine \<Rightarrow> error + cell \<times> machine" where
  "POP st = bnd (TOP st) (\<lambda>c. bnd (DROP 1 st) (\<lambda>st'. Inr (c, st')))"

definition ARG :: "nat \<Rightarrow> machine \<Rightarrow> error + cell" where
  "ARG k st = bnd (PUSHED k st) (\<lambda>c. cdr c st)"

definition set_ARG :: "nat \<Rightarrow> cell \<Rightarrow> machine \<Rightarrow> error + machine" where
  "set_ARG k y st = bnd (PUSHED k st) (\<lambda>c. set_cdr c y st)"

definition APPLICABLE :: "nat \<Rightarrow> nat \<Rightarrow> machine \<Rightarrow> bool" where
  "APPLICABLE k bottom st \<longleftrightarrow> k < length (stack st) - bottom"

section \<open>Storage management\<close>

definition malloc :: "nat \<Rightarrow> machine \<Rightarrow> (nat \<times> machine) option" where
  "malloc n st =
     (if brk st + n \<le> mem_limit st then Some (brk st, st\<lparr>brk := brk st + n\<rparr>)
      else None)"

definition storage_init :: "nat \<Rightarrow> machine \<Rightarrow> error + machine" where
  "storage_init sz st =
     (case malloc sz (st\<lparr>heap_size := sz\<rparr>) of
        None \<Rightarrow> Inl (CannotAllocate sz)
      | Some (p, st1) \<Rightarrow>
          Inr (st1\<lparr>free_ptr := p, heap_area := p + sz,
                   next_heap_size := sz * 3 div 2\<rparr>))"

text \<open>
  The loop of \<^verbatim>\<open>copy_cell\<close> that walks a chain of \<^verbatim>\<open>(I, ...)\<close> pairs; on a cyclic
  chain it never ends.
\<close>

fun i_chain :: "nat \<Rightarrow> cell \<Rightarrow> machine \<Rightarrow> error + cell" where
  "i_chain 0 tmp st = Inl OutOfFuel"
| "i_chain (Suc n) tmp st =
     (if ispair tmp \<and> car tmp st = Inr COMB_I then bnd (cdr tmp st) (\<lambda>t. i_chain n t st)
      else Inr tmp)"

definition copy_cell :: "nat \<Rightarrow> cell \<Rightarrow> machine \<Rightarrow> error + cell \<times> machine" where
  "copy_cell n c st =
     (if \<not> ispair c then Inr (c, st)
      else if car c st = Inr COPIED then bnd (cdr c st) (\<lambda>d. Inr (d, st))
      else if heap_area st \<le> free_ptr st then Inl Undefined
      else
        let r = PairC (free_ptr st);
            st1 = st\<lparr>free_ptr := free_ptr st + 1\<rparr>
        in bnd (car c st1) (\<lambda>a.
           bnd (set_car r a st1) (\<lambda>st2.
           bnd (if a = COMB_I
                then bnd (cdr c st2) (\<lambda>d. bnd (i_chain n d st2) (\<lambda>tmp. set_cdr r tmp st2))
                else bnd (cdr c st2) (\<lambda>d. set_cdr r d st2)) (\<lambda>st3.
           bnd (set_car c COPIED st3) (\<lambda>st4.
           bnd (set_cdr c r st4) (\<lambda>st5. Inr (r, st5)))))))"

text \<open>
  \<^verbatim>\<open>rs_copy\<close> walks the live slots from the oldest (the end of the buffer) to
  \<^verbatim>\<open>TOP\<close>; \<open>copy_slots\<close> takes them oldest first and returns them so.
\<close>

fun copy_slots :: "nat \<Rightarrow> cell list \<Rightarrow> machine \<Rightarrow> error + cell list \<times> machine" where
  "copy_slots n [] st = Inr ([], st)"
| "copy_slots n (c # cs) st =
     bnd (copy_cell n c st) (\<lambda>(c', st1).
     bnd (copy_slots n cs st1) (\<lambda>(cs', st2). Inr (c' # cs', st2)))"

definition rs_copy :: "nat \<Rightarrow> machine \<Rightarrow> error + machine" where
  "rs_copy n st =
     bnd (copy_slots n (rev (stack st)) st) (\<lambda>(cs, st1). Inr (st1\<lparr>stack := rev cs\<rparr>))"

fun copy_save :: "nat \<Rightarrow> cell option \<Rightarrow> machine \<Rightarrow> error + cell option \<times> machine" where
  "copy_save n None st = Inr (None, st)"
| "copy_save n (Some c) st = bnd (copy_cell n c st) (\<lambda>(c', st1). Inr (Some c', st1))"

fun gc_scan :: "nat \<Rightarrow> nat \<Rightarrow> machine \<Rightarrow> error + machine" where
  "gc_scan 0 scan st = Inl OutOfFuel"
| "gc_scan (Suc n) scan st =
     (if scan < free_ptr st then
        bnd (car (PairC scan) st) (\<lambda>a.
        bnd (copy_cell n a st) (\<lambda>(a', st1).
        bnd (set_car (PairC scan) a' st1) (\<lambda>st2.
        bnd (cdr (PairC scan) st2) (\<lambda>d.
        bnd (copy_cell n d st2) (\<lambda>(d', st3).
        bnd (set_cdr (PairC scan) d' st3) (\<lambda>st4.
        gc_scan n (scan + 1) st4))))))
      else Inr st)"

definition gc_resize :: "machine \<Rightarrow> machine" where
  "gc_resize st =
     (let num_alive = free_ptr st - (heap_area st - next_heap_size st) in
      if heap_size st \<noteq> next_heap_size st \<or> num_alive * 8 > next_heap_size st
      then st\<lparr>heap_size := next_heap_size st,
              next_heap_size :=
                (if num_alive * 8 > next_heap_size st then num_alive * 8
                 else next_heap_size st),
              free_area := None\<rparr>
      else st)"

fun gc_run ::
  "nat \<Rightarrow> cell option \<Rightarrow> cell option \<Rightarrow> machine \<Rightarrow> error + (cell option \<times> cell option) \<times> machine"
where
  "gc_run 0 save1 save2 st = Inl OutOfFuel"
| "gc_run (Suc n) save1 save2 st =
     bnd (case free_area st of
            Some p \<Rightarrow> Inr (p, st)
          | None \<Rightarrow>
              (case malloc (next_heap_size st) st of
                 None \<Rightarrow> Inl (CannotAllocate (next_heap_size st))
               | Some (p, st0) \<Rightarrow> Inr (p, st0))) (\<lambda>(p, st0).
     let st1 = st0\<lparr>free_ptr := p,
                   free_area := Some (heap_area st0 - heap_size st0),
                   heap_area := p + next_heap_size st0\<rparr>
     in bnd (rs_copy n st1) (\<lambda>st2.
        bnd (copy_save n save1 st2) (\<lambda>(s1, st3).
        bnd (copy_save n save2 st3) (\<lambda>(s2, st4).
        bnd (gc_scan n p st4) (\<lambda>st5.
        let st6 = gc_resize st5 in
        if heap_area st6 \<le> free_ptr st6 then gc_run n s1 s2 st6
        else Inr ((s1, s2), st6))))))"

definition pair :: "nat \<Rightarrow> cell \<Rightarrow> cell \<Rightarrow> machine \<Rightarrow> error + cell \<times> machine" where
  "pair n fst0 snd0 st =
     bnd (if heap_area st \<le> free_ptr st
          then bnd (gc_run n (Some fst0) (Some snd0) st)
                 (\<lambda>((s1, s2), st1). Inr ((the s1, the s2), st1))
          else Inr ((fst0, snd0), st)) (\<lambda>((x, y), st1).
     if \<not> free_ptr st1 < heap_area st1 then Inl AssertPair
     else
       let c = PairC (free_ptr st1) in
       bnd (set_car c x (st1\<lparr>free_ptr := free_ptr st1 + 1\<rparr>)) (\<lambda>st2.
       bnd (set_cdr c y st2) (\<lambda>st3. Inr (c, st3))))"

definition alloc :: "nat \<Rightarrow> nat \<Rightarrow> machine \<Rightarrow> error + cell \<times> machine" where
  "alloc n k st =
     bnd (if heap_area st < free_ptr st + k
          then bnd (gc_run n None None st) (\<lambda>(ss, st1). Inr st1)
          else Inr st) (\<lambda>st1.
     if \<not> free_ptr st1 + k \<le> heap_area st1 then Inl AssertAlloc
     else Inr (PairC (free_ptr st1), st1\<lparr>free_ptr := free_ptr st1 + k\<rparr>))"

section \<open>Loader\<close>

definition EOF :: int where
  "EOF = - 1"

definition input_init :: "byte list option list \<Rightarrow> machine \<Rightarrow> error + machine" where
  "input_init av st =
     (case av of
        [] \<Rightarrow> Inr (st\<lparr>input_argv := av, input_fp := stdin st, input_ch := 0, input_bit := 0\<rparr>)
      | None # _ \<Rightarrow> Inl CannotOpen
      | Some f # _ \<Rightarrow> Inr (st\<lparr>input_argv := av, input_fp := f, input_ch := 0, input_bit := 0\<rparr>))"

function read_char :: "machine \<Rightarrow> error + int \<times> machine" where
  "read_char st =
     (case input_fp st of
        b # bs \<Rightarrow> Inr (uint b, st\<lparr>input_fp := bs\<rparr>)
      | [] \<Rightarrow>
          (case input_argv st of
             [] \<Rightarrow> Inr (EOF, st)
           | a # av \<Rightarrow>
               (case av of
                  [] \<Rightarrow> read_char (st\<lparr>input_argv := av, input_fp := stdin st\<rparr>)
                | None # _ \<Rightarrow> Inl CannotOpen
                | Some f # _ \<Rightarrow> read_char (st\<lparr>input_argv := av, input_fp := f\<rparr>))))"
  by pat_completeness auto
termination
  by (relation "measure (\<lambda>st. length (input_argv st))") auto

declare read_char.simps [simp del]

definition read_bit :: "machine \<Rightarrow> error + int \<times> machine" where
  "read_bit st =
     bnd (if input_bit st = 0 then
            bnd (read_char st) (\<lambda>(c, st1).
              if c = EOF then Inl UnexpectedEOF
              else Inr (st1\<lparr>input_ch := c, input_bit := 0x80\<rparr>))
          else Inr st) (\<lambda>st1.
     Inr (if input_ch st1 AND input_bit st1 \<noteq> 0 then 1 else 0,
          st1\<lparr>input_bit := drop_bit 1 (input_bit st1)\<rparr>))"

text \<open>The loop \<^verbatim>\<open>for (i = 0; read_bit(); i++) ;\<close> of \<^verbatim>\<open>parse\<close>.\<close>

fun parse_var :: "nat \<Rightarrow> int \<Rightarrow> machine \<Rightarrow> error + int \<times> machine" where
  "parse_var 0 i st = Inl OutOfFuel"
| "parse_var (Suc n) i st =
     bnd (read_bit st) (\<lambda>(b, st1).
       if b \<noteq> 0 then parse_var n (i + 1) st1 else Inr (i, st1))"

fun parse :: "nat \<Rightarrow> machine \<Rightarrow> error + cell \<times> machine" where
  "parse 0 st = Inl OutOfFuel"
| "parse (Suc n) st =
     bnd (read_bit st) (\<lambda>(b, st1).
       if b \<noteq> 0 then
         bnd (parse_var n 0 st1) (\<lambda>(i, st2). Inr (mkint i, st2))
       else
         bnd (read_bit st1) (\<lambda>(b', st2).
           if b' \<noteq> 0 then
             bnd (parse n st2) (\<lambda>(f, st3).
             bnd (PUSH f st3) (\<lambda>st4.
             bnd (parse n st4) (\<lambda>(c, st5).
             bnd (TOP st5) (\<lambda>t.
             bnd (pair n t c st5) (\<lambda>(c', st6).
             bnd (POP st6) (\<lambda>(u, st7). Inr (c', st7)))))))
           else
             bnd (parse n st2) (\<lambda>(c, st3). pair n LAMBDA c st3)))"

definition IS_K1 :: "cell \<Rightarrow> machine \<Rightarrow> bool" where
  "IS_K1 x st \<longleftrightarrow> ispair x \<and> car x st = Inr COMB_K"

definition IS_B2 :: "cell \<Rightarrow> machine \<Rightarrow> bool" where
  "IS_B2 x st \<longleftrightarrow>
     ispair x \<and> (case car x st of Inl e \<Rightarrow> False | Inr a \<Rightarrow> ispair a \<and> car a st = Inr COMB_B)"

text \<open>
  The body of \<^verbatim>\<open>unabstract\<close> between the two recursive calls and \<^verbatim>\<open>DROP(2)\<close>:
  \<open>f\<close> is \<^verbatim>\<open>TOP\<close>, \<open>g\<close> is \<^verbatim>\<open>PUSHED(1)\<close>.
\<close>

definition peephole :: "nat \<Rightarrow> cell \<Rightarrow> cell \<Rightarrow> machine \<Rightarrow> error + cell \<times> machine" where
  "peephole n f g st =
     (if IS_K1 f st then
        if g = COMB_I then
          bnd (cdr f st) (\<lambda>x. Inr (x, st))
        else if IS_K1 g st then
          bnd (cdr f st) (\<lambda>x.
          bnd (set_car g x st) (\<lambda>st1.
          bnd (set_cdr f g st1) (\<lambda>st2. Inr (f, st2))))
        else if IS_B2 g st then
          bnd (set_car f COMB_BS st) (\<lambda>st1.
          bnd (car g st1) (\<lambda>cg.
          bnd (set_car cg f st1) (\<lambda>st2. Inr (g, st2))))
        else
          bnd (set_car f COMB_B st) (\<lambda>st1. pair n f g st1)
      else if IS_K1 g st then
        if IS_B2 f st then
          bnd (car f st) (\<lambda>cf.
          bnd (set_car cf COMB_CP st) (\<lambda>st1.
          bnd (set_car g f st1) (\<lambda>st2. Inr (g, st2))))
        else
          bnd (cdr g st) (\<lambda>y.
          bnd (SET g (val COMB_C) TOP st) (\<lambda>st1. pair n g y st1))
      else if IS_B2 f st then
        bnd (car f st) (\<lambda>cf.
        bnd (set_car cf COMB_SP st) (\<lambda>st1. pair n f g st1))
      else
        bnd (pair n COMB_S f st) (\<lambda>(f', st1).
        bnd (PUSHED 1 st1) (\<lambda>p. pair n f' p st1)))"

fun unabstract :: "nat \<Rightarrow> cell \<Rightarrow> machine \<Rightarrow> error + cell \<times> machine" where
  "unabstract 0 t st = Inl OutOfFuel"
| "unabstract (Suc n) t st =
     (if isint t then
        if t = mkint 0 then Inr (COMB_I, st)
        else pair n COMB_K (mkint (intof t - 1)) st
      else if ispair t then
        bnd (cdr t st) (\<lambda>d.
        bnd (PUSH d st) (\<lambda>st1.
        bnd (car t st1) (\<lambda>a.
        bnd (unabstract n a st1) (\<lambda>(f', st2).
        bnd (PUSH f' st2) (\<lambda>st3.
        bnd (PUSHED 1 st3) (\<lambda>p.
        bnd (unabstract n p st3) (\<lambda>(g, st4).
        bnd (set_PUSHED 1 g st4) (\<lambda>st5.
        bnd (TOP st5) (\<lambda>f.
        bnd (peephole n f g st5) (\<lambda>(r, st6).
        bnd (DROP 2 st6) (\<lambda>st7. Inr (r, st7))))))))))))
      else pair n COMB_K t st)"

fun translate :: "nat \<Rightarrow> cell \<Rightarrow> machine \<Rightarrow> error + cell \<times> machine" where
  "translate 0 t st = Inl OutOfFuel"
| "translate (Suc n) t st =
     (if \<not> ispair t then Inr (t, st)
      else if car t st = Inr LAMBDA then
        bnd (cdr t st) (\<lambda>d.
        bnd (translate n d st) (\<lambda>(b, st1). unabstract n b st1))
      else
        bnd (cdr t st) (\<lambda>d.
        bnd (PUSH d st) (\<lambda>st1.
        bnd (car t st1) (\<lambda>a.
        bnd (translate n a st1) (\<lambda>(x, st2).
        bnd (PUSH x st2) (\<lambda>st3.
        bnd (PUSHED 1 st3) (\<lambda>p.
        bnd (translate n p st3) (\<lambda>(s, st4).
        bnd (TOP st4) (\<lambda>x'.
        bnd (pair n x' s st4) (\<lambda>(s', st5).
        bnd (DROP 2 st5) (\<lambda>st6. Inr (s', st6))))))))))))"

definition load_program :: "nat \<Rightarrow> machine \<Rightarrow> error + cell \<times> machine" where
  "load_program n st = bnd (parse n st) (\<lambda>(c, st1). translate n c st1)"

section \<open>Reducer\<close>

text \<open>The loop \<^verbatim>\<open>while (ispair(TOP)) PUSH(car(TOP));\<close>.\<close>

fun unspine :: "nat \<Rightarrow> machine \<Rightarrow> error + machine" where
  "unspine 0 st = Inl OutOfFuel"
| "unspine (Suc n) st =
     bnd (TOP st) (\<lambda>t.
       if ispair t then bnd (car t st) (\<lambda>a. bnd (PUSH a st) (unspine n))
       else Inr st)"

text \<open>
  The branches of \<^verbatim>\<open>eval\<close> that make no nested call, one definition for each, named
  after the combinator at \<^verbatim>\<open>TOP\<close>.
\<close>

definition red_I :: "machine \<Rightarrow> error + machine" where
  "red_I st =
     bnd (POP st) (\<lambda>(u, st1).
     bnd (TOP st1) (\<lambda>t.
     bnd (cdr t st1) (\<lambda>x. set_TOP x st1)))"

definition red_S :: "nat \<Rightarrow> machine \<Rightarrow> error + machine" where
  "red_S n st =
     bnd (alloc n 2 st) (\<lambda>(a, st1).
     bnd (SET (offs a 0) (ARG 1) (ARG 3) st1) (\<lambda>st2.
     bnd (SET (offs a 1) (ARG 2) (ARG 3) st2) (\<lambda>st3.
     bnd (DROP 3 st3) (\<lambda>st4.
     bnd (TOP st4) (\<lambda>t. SET t (val (offs a 0)) (val (offs a 1)) st4)))))"

definition red_K :: "machine \<Rightarrow> error + machine" where
  "red_K st =
     bnd (ARG 1 st) (\<lambda>x.
     bnd (DROP 2 st) (\<lambda>st1.
     bnd (TOP st1) (\<lambda>t.
     bnd (SET t (val COMB_I) (val x) st1) (\<lambda>st2.
     bnd (TOP st2) (\<lambda>t'.
     bnd (cdr t' st2) (\<lambda>d. set_TOP d st2))))))"

definition red_B :: "nat \<Rightarrow> machine \<Rightarrow> error + machine" where
  "red_B n st =
     bnd (ARG 2 st) (\<lambda>g.
     bnd (ARG 3 st) (\<lambda>x.
     bnd (pair n g x st) (\<lambda>(gx, st1).
     bnd (ARG 1 st1) (\<lambda>f.
     bnd (DROP 3 st1) (\<lambda>st2.
     bnd (TOP st2) (\<lambda>t. SET t (val f) (val gx) st2))))))"

definition red_C :: "nat \<Rightarrow> machine \<Rightarrow> error + machine" where
  "red_C n st =
     bnd (ARG 1 st) (\<lambda>f.
     bnd (ARG 3 st) (\<lambda>x.
     bnd (pair n f x st) (\<lambda>(fx, st1).
     bnd (ARG 2 st1) (\<lambda>g.
     bnd (DROP 3 st1) (\<lambda>st2.
     bnd (TOP st2) (\<lambda>t. SET t (val fx) (val g) st2))))))"

definition red_SP :: "nat \<Rightarrow> machine \<Rightarrow> error + machine" where
  "red_SP n st =
     bnd (alloc n 3 st) (\<lambda>(a, st1).
     bnd (SET (offs a 0) (ARG 2) (ARG 4) st1) (\<lambda>st2.
     bnd (SET (offs a 1) (ARG 3) (ARG 4) st2) (\<lambda>st3.
     bnd (SET (offs a 2) (ARG 1) (val (offs a 0)) st3) (\<lambda>st4.
     bnd (DROP 4 st4) (\<lambda>st5.
     bnd (TOP st5) (\<lambda>t. SET t (val (offs a 2)) (val (offs a 1)) st5))))))"

definition red_BS :: "nat \<Rightarrow> machine \<Rightarrow> error + machine" where
  "red_BS n st =
     bnd (alloc n 2 st) (\<lambda>(a, st1).
     bnd (SET (offs a 0) (ARG 3) (ARG 4) st1) (\<lambda>st2.
     bnd (SET (offs a 1) (ARG 2) (val (offs a 0)) st2) (\<lambda>st3.
     bnd (ARG 1 st3) (\<lambda>c.
     bnd (DROP 4 st3) (\<lambda>st4.
     bnd (TOP st4) (\<lambda>t. SET t (val c) (val (offs a 1)) st4))))))"

definition red_CP :: "nat \<Rightarrow> machine \<Rightarrow> error + machine" where
  "red_CP n st =
     bnd (alloc n 2 st) (\<lambda>(a, st1).
     bnd (SET (offs a 0) (ARG 2) (ARG 4) st1) (\<lambda>st2.
     bnd (SET (offs a 1) (ARG 1) (val (offs a 0)) st2) (\<lambda>st3.
     bnd (ARG 3 st3) (\<lambda>g.
     bnd (DROP 4 st3) (\<lambda>st4.
     bnd (TOP st4) (\<lambda>t. SET t (val (offs a 1)) (val g) st4))))))"

definition red_IOTA :: "nat \<Rightarrow> machine \<Rightarrow> error + machine" where
  "red_IOTA n st =
     bnd (ARG 1 st) (\<lambda>x.
     bnd (pair n x COMB_S st) (\<lambda>(xs, st1).
     bnd (POP st1) (\<lambda>(u, st2).
     bnd (TOP st2) (\<lambda>t. SET t (val xs) (val COMB_K) st2))))"

definition red_KI :: "machine \<Rightarrow> error + machine" where
  "red_KI st =
     bnd (DROP 2 st) (\<lambda>st1.
     bnd (TOP st1) (\<lambda>t. set_car t COMB_I st1))"

definition red_CONS :: "nat \<Rightarrow> machine \<Rightarrow> error + machine" where
  "red_CONS n st =
     bnd (ARG 3 st) (\<lambda>f.
     bnd (ARG 1 st) (\<lambda>x.
     bnd (pair n f x st) (\<lambda>(fx, st1).
     bnd (ARG 2 st1) (\<lambda>y.
     bnd (DROP 3 st1) (\<lambda>st2.
     bnd (TOP st2) (\<lambda>t. SET t (val fx) (val y) st2))))))"

definition red_READ :: "nat \<Rightarrow> machine \<Rightarrow> error + machine" where
  "red_READ n st =
     bnd (read_char st) (\<lambda>(c, st1).
       if c = EOF then
         bnd (POP st1) (\<lambda>(u, st2).
         bnd (TOP st2) (\<lambda>t. SET t (val COMB_I) (val COMB_KI) st2))
       else
         bnd (alloc n 2 st1) (\<lambda>(a, st2).
         bnd (SET (offs a 0) (val COMB_CONS) (val (mkchar (if c = EOF then 256 else c))) st2) (\<lambda>st3.
         bnd (SET (offs a 1) (val COMB_READ) (val NIL) st3) (\<lambda>st4.
         bnd (POP st4) (\<lambda>(u, st5).
         bnd (TOP st5) (\<lambda>t. SET t (val (offs a 0)) (val (offs a 1)) st5))))))"

definition red_WRITE :: "nat \<Rightarrow> machine \<Rightarrow> error + machine" where
  "red_WRITE n st =
     bnd (POP st) (\<lambda>(u, st1).
     bnd (TOP st1) (\<lambda>t.
     bnd (cdr t st1) (\<lambda>x.
     bnd (pair n x COMB_PUTC st1) (\<lambda>(a, st2).
     bnd (TOP st2) (\<lambda>t'. SET t' (val a) (val COMB_RETURN) st2)))))"

definition red_CHAR :: "nat \<Rightarrow> machine \<Rightarrow> error + machine" where
  "red_CHAR n st =
     bnd (TOP st) (\<lambda>t.
       let c = charof t in
       if c \<le> 0 then
         bnd (ARG 2 st) (\<lambda>z.
         bnd (DROP 2 st) (\<lambda>st1.
         bnd (TOP st1) (\<lambda>t'. SET t' (val COMB_I) (val z) st1)))
       else
         bnd (alloc n 2 st) (\<lambda>(a, st1).
         bnd (ARG 1 st1) (\<lambda>f.
         bnd (SET (offs a 0) (val (mkchar (c - 1))) (val f) st1) (\<lambda>st2.
         bnd (SET (offs a 1) (val (offs a 0)) (ARG 2) st2) (\<lambda>st3.
         bnd (DROP 2 st3) (\<lambda>st4.
         bnd (TOP st4) (\<lambda>t'. SET t' (val f) (val (offs a 1)) st4)))))))"

text \<open>
  The \<^verbatim>\<open>PUTC\<close> branch before and after its nested call \<^verbatim>\<open>eval(a+1)\<close>, and the
  \<^verbatim>\<open>INC\<close> branch before and after its nested call \<^verbatim>\<open>eval(c)\<close>. The first parts
  return the root of the nested evaluation.
\<close>

definition putc_begin :: "nat \<Rightarrow> machine \<Rightarrow> error + cell \<times> machine" where
  "putc_begin n st =
     bnd (alloc n 2 st) (\<lambda>(a, st1).
     bnd (SET (offs a 0) (ARG 1) (val COMB_INC) st1) (\<lambda>st2.
     bnd (SET (offs a 1) (val (offs a 0)) (val (mkint 0)) st2) (\<lambda>st3.
     bnd (DROP 2 st3) (\<lambda>st4. Inr (offs a 1, st4)))))"

definition putchar :: "int \<Rightarrow> machine \<Rightarrow> machine" where
  "putchar c st = st\<lparr>stdout := stdout st @ [word_of_int c]\<rparr>"

definition putc_end :: "machine \<Rightarrow> error + machine" where
  "putc_end st =
     bnd (TOP st) (\<lambda>t.
       if \<not> isint t then Inl NotANumber
       else if 256 \<le> intof t then Inl (InvalidCharacter (intof t))
       else
         bnd (POP (putchar (intof t) st)) (\<lambda>(u, st1).
         bnd (TOP st1) (\<lambda>t1.
         bnd (cdr t1 st1) (\<lambda>y.
         bnd (set_ARG 1 y st1) (\<lambda>st2.
         bnd (POP st2) (\<lambda>(u', st3).
         bnd (TOP st3) (\<lambda>t3. set_car t3 COMB_WRITE st3)))))))"

definition inc_begin :: "machine \<Rightarrow> error + cell \<times> machine" where
  "inc_begin st =
     bnd (ARG 1 st) (\<lambda>c.
     bnd (POP st) (\<lambda>(u, st1). Inr (c, st1)))"

definition inc_end :: "machine \<Rightarrow> error + machine" where
  "inc_end st =
     bnd (POP st) (\<lambda>(c, st1).
       if \<not> isint c then Inl IncNonNumber
       else bnd (TOP st1) (\<lambda>t. SET t (val COMB_I) (val (mkint (intof c + 1))) st1))"

text \<open>
  \<open>eval_loop n bottom\<close> is the \<^verbatim>\<open>for (;;)\<close> loop of \<^verbatim>\<open>eval\<close>, where \<open>bottom\<close> is the
  number of live stack slots when \<^verbatim>\<open>eval\<close> was entered. Each branch yields the new
  state and whether the loop goes on (counting a reduction) or \<^verbatim>\<open>eval\<close> returns.
  The nested calls of \<^verbatim>\<open>eval\<close> are \<open>PUSH\<close> of the root followed by the loop with the
  new bottom.
\<close>

fun eval_loop :: "nat \<Rightarrow> nat \<Rightarrow> machine \<Rightarrow> error + machine" where
  "eval_loop 0 bottom st = Inl OutOfFuel"
| "eval_loop (Suc n) bottom st =
     bnd (unspine n st) (\<lambda>st1.
     bnd (TOP st1) (\<lambda>t.
     bnd (if t = COMB_I \<and> APPLICABLE 1 bottom st1 then
            bnd (red_I st1) (\<lambda>s. Inr (True, s))
          else if t = COMB_S \<and> APPLICABLE 3 bottom st1 then
            bnd (red_S n st1) (\<lambda>s. Inr (True, s))
          else if t = COMB_K \<and> APPLICABLE 2 bottom st1 then
            bnd (red_K st1) (\<lambda>s. Inr (True, s))
          else if t = COMB_B \<and> APPLICABLE 3 bottom st1 then
            bnd (red_B n st1) (\<lambda>s. Inr (True, s))
          else if t = COMB_C \<and> APPLICABLE 3 bottom st1 then
            bnd (red_C n st1) (\<lambda>s. Inr (True, s))
          else if t = COMB_SP \<and> APPLICABLE 4 bottom st1 then
            bnd (red_SP n st1) (\<lambda>s. Inr (True, s))
          else if t = COMB_BS \<and> APPLICABLE 4 bottom st1 then
            bnd (red_BS n st1) (\<lambda>s. Inr (True, s))
          else if t = COMB_CP \<and> APPLICABLE 4 bottom st1 then
            bnd (red_CP n st1) (\<lambda>s. Inr (True, s))
          else if t = COMB_IOTA \<and> APPLICABLE 1 bottom st1 then
            bnd (red_IOTA n st1) (\<lambda>s. Inr (True, s))
          else if t = COMB_KI \<and> APPLICABLE 2 bottom st1 then
            bnd (red_KI st1) (\<lambda>s. Inr (True, s))
          else if t = COMB_CONS \<and> APPLICABLE 3 bottom st1 then
            bnd (red_CONS n st1) (\<lambda>s. Inr (True, s))
          else if t = COMB_READ \<and> APPLICABLE 2 bottom st1 then
            bnd (red_READ n st1) (\<lambda>s. Inr (True, s))
          else if t = COMB_WRITE \<and> APPLICABLE 1 bottom st1 then
            bnd (red_WRITE n st1) (\<lambda>s. Inr (True, s))
          else if t = COMB_PUTC \<and> APPLICABLE 3 bottom st1 then
            bnd (putc_begin n st1) (\<lambda>(r, st2).
            bnd (PUSH r st2) (\<lambda>st3.
            bnd (eval_loop n (length (stack st2)) st3) (\<lambda>st4.
            bnd (putc_end st4) (\<lambda>s. Inr (True, s)))))
          else if t = COMB_RETURN then Inr (False, st1)
          else if t = COMB_INC \<and> APPLICABLE 1 bottom st1 then
            bnd (inc_begin st1) (\<lambda>(r, st2).
            bnd (PUSH r st2) (\<lambda>st3.
            bnd (eval_loop n (length (stack st2)) st3) (\<lambda>st4.
            bnd (inc_end st4) (\<lambda>s. Inr (True, s)))))
          else if ischar t \<and> APPLICABLE 2 bottom st1 then
            bnd (red_CHAR n st1) (\<lambda>s. Inr (True, s))
          else if isint t \<and> APPLICABLE 1 bottom st1 then Inl ApplyNumber
          else Inr (False, st1)) (\<lambda>(continue, st5).
     if continue then eval_loop n bottom (st5\<lparr>reductions := reductions st5 + 1\<rparr>)
     else Inr st5)))"

definition eval :: "nat \<Rightarrow> cell \<Rightarrow> machine \<Rightarrow> error + machine" where
  "eval n root st = bnd (PUSH root st) (eval_loop n (length (stack st)))"

definition eval_print :: "nat \<Rightarrow> cell \<Rightarrow> machine \<Rightarrow> error + machine" where
  "eval_print n root st =
     bnd (pair n COMB_READ NIL st) (\<lambda>(x, st1).
     bnd (pair n root x st1) (\<lambda>(y, st2).
     bnd (pair n COMB_WRITE y st2) (\<lambda>(z, st3). eval n z st3)))"

section \<open>Main\<close>

text \<open>
  \<^verbatim>\<open>main\<close> after its options: \<^verbatim>\<open>input_init\<close>, \<^verbatim>\<open>storage_init\<close>, \<^verbatim>\<open>rs_init\<close>,
  \<^verbatim>\<open>load_program\<close> and \<^verbatim>\<open>eval_print\<close>. The size of the first heap is a parameter as it
  is one of \<^verbatim>\<open>storage_init\<close>; \<^verbatim>\<open>main\<close> passes \<open>INITIAL_HEAP_SIZE\<close>.
\<close>

definition rs_init :: "machine \<Rightarrow> machine" where
  "rs_init st = st\<lparr>stack := []\<rparr>"

definition machine0 :: "byte list \<Rightarrow> machine" where
  "machine0 inp =
     \<lparr>mem = (\<lambda>a. (UNUSED_MARKER, UNUSED_MARKER)), brk = 1, mem_limit = 2 ^ 29,
      heap_area = 0, free_ptr = 0, heap_size = 0, next_heap_size = 0, free_area = None,
      stack = [], input_argv = [], input_fp = [], stdin = inp,
      input_ch = 0, input_bit = 0, stdout = [], reductions = 0\<rparr>"

definition startup :: "nat \<Rightarrow> byte list option list \<Rightarrow> machine \<Rightarrow> error + machine" where
  "startup sz av st =
     bnd (input_init av st) (\<lambda>st1.
     bnd (storage_init sz st1) (\<lambda>st2. Inr (rs_init st2)))"

definition run :: "nat \<Rightarrow> nat \<Rightarrow> byte list option list \<Rightarrow> machine \<Rightarrow> error + machine" where
  "run n sz av st =
     bnd (startup sz av st) (\<lambda>st1.
     bnd (load_program n st1) (\<lambda>(root, st2). eval_print n root st2))"

definition main :: "nat \<Rightarrow> byte list option list \<Rightarrow> machine \<Rightarrow> error + machine" where
  "main n av st = run n INITIAL_HEAP_SIZE av st"

definition sp :: "machine \<Rightarrow> nat" where
  "sp st = RDSTACK_SIZE - length (stack st)"

section \<open>Example machines\<close>

text \<open>
  The machine after \<^verbatim>\<open>main\<close> has initialised the input, a first heap of \<open>sz\<close> cells
  and the stack, reading the program and its input from the standard input \<open>inp\<close>.
\<close>

definition booted :: "nat \<Rightarrow> byte list \<Rightarrow> machine" where
  "booted sz inp =
     (machine0 inp)\<lparr>heap_size := sz, brk := 1 + sz, free_ptr := 1, heap_area := 1 + sz,
                    next_heap_size := sz * 3 div 2, input_fp := inp\<rparr>"

text \<open>The cell and the machine that \<^verbatim>\<open>parse\<close> returns on such a machine.\<close>

definition loaded :: "nat \<Rightarrow> byte list \<Rightarrow> cell \<times> machine" where
  "loaded sz inp =
     (case parse 20 (booted sz inp) of Inl e \<Rightarrow> (NIL, booted sz inp) | Inr r \<Rightarrow> r)"

text \<open>
  A machine about to reduce \<^verbatim>\<open>READ NIL K\<close>: the spine is unwound, \<^verbatim>\<open>READ\<close> is
  at \<^verbatim>\<open>TOP\<close>. And a machine in the \<^verbatim>\<open>PUTC\<close> branch where the nested evaluation has
  just left the value \<open>v\<close> at \<^verbatim>\<open>TOP\<close>, above the cells of \<^verbatim>\<open>PUTC x y\<close> and
  \<^verbatim>\<open>PUTC x y i\<close> (here \<^verbatim>\<open>x\<close> is \<^verbatim>\<open>K\<close>, \<^verbatim>\<open>y\<close> is \<^verbatim>\<open>S\<close> and \<^verbatim>\<open>i\<close> is \<^verbatim>\<open>RETURN\<close>).
\<close>

definition read_redex :: "byte list \<Rightarrow> machine" where
  "read_redex inp =
     (booted 8 inp)\<lparr>mem := (\<lambda>a. (UNUSED_MARKER, UNUSED_MARKER))
                             (1 := (COMB_READ, NIL), 2 := (PairC 1, COMB_K)),
                     free_ptr := 3, stack := [COMB_READ, PairC 1, PairC 2]\<rparr>"

definition putc_cells :: "nat \<Rightarrow> cell \<times> cell" where
  "putc_cells =
     (\<lambda>a. (UNUSED_MARKER, UNUSED_MARKER))
       (1 := (COMB_PUTC, COMB_K), 2 := (PairC 1, COMB_S), 3 := (PairC 2, COMB_RETURN))"

definition putc_redex :: machine where
  "putc_redex = (booted 8 [])\<lparr>mem := putc_cells, free_ptr := 4, stack := [PairC 3]\<rparr>"

definition putc_value :: "cell \<Rightarrow> machine" where
  "putc_value v =
     (booted 8 [])\<lparr>mem := putc_cells, free_ptr := 6, stack := [v, PairC 2, PairC 3]\<rparr>"

text \<open>
  The input and output side of a machine, and the update of the bit buffer of
  \<^verbatim>\<open>read_bit\<close> alone.
\<close>

definition io ::
  "machine \<Rightarrow> byte list option list \<times> byte list \<times> byte list \<times> int \<times> int \<times> byte list"
where
  "io st = (input_argv st, input_fp st, stdin st, input_ch st, input_bit st, stdout st)"

definition set_bits :: "int \<Rightarrow> int \<Rightarrow> machine \<Rightarrow> machine" where
  "set_bits c b st = st\<lparr>input_ch := c, input_bit := b\<rparr>"

section \<open>Rules for running the machine\<close>

lemmas i_chain_num = i_chain.simps(2)[of "pred_numeral k" for k, folded numeral_eq_Suc]
lemmas gc_scan_num = gc_scan.simps(2)[of "pred_numeral k" for k, folded numeral_eq_Suc]
lemmas gc_run_num = gc_run.simps(2)[of "pred_numeral k" for k, folded numeral_eq_Suc]
lemmas parse_var_num = parse_var.simps(2)[of "pred_numeral k" for k, folded numeral_eq_Suc]
lemmas parse_num = parse.simps(2)[of "pred_numeral k" for k, folded numeral_eq_Suc]
lemmas unabstract_num = unabstract.simps(2)[of "pred_numeral k" for k, folded numeral_eq_Suc]
lemmas translate_num = translate.simps(2)[of "pred_numeral k" for k, folded numeral_eq_Suc]
lemmas unspine_num = unspine.simps(2)[of "pred_numeral k" for k, folded numeral_eq_Suc]
lemmas eval_loop_num = eval_loop.simps(2)[of "pred_numeral k" for k, folded numeral_eq_Suc]

lemma mkint_small: "0 \<le> n \<Longrightarrow> n < 2 ^ 29 \<Longrightarrow> mkint n = IntC n"
  unfolding mkint_def by (simp add: signed_take_bit_int_eq_self)

lemmas exec =
  i_chain_num gc_scan_num gc_run_num parse_var_num parse_num unabstract_num translate_num
  unspine_num eval_loop_num
  startup_def input_init_def storage_init_def rs_init_def machine0_def booted_def malloc_def
  read_char.simps read_bit_def EOF_def pair_def alloc_def copy_cell_def rs_copy_def
  gc_resize_def rs_push_def PUSHED_def set_PUSHED_def DROP_def POP_def ARG_def set_ARG_def
  APPLICABLE_def RDSTACK_SIZE_def SET_def val_def mkint_small mkchar_def Let_def
  IS_K1_def IS_B2_def peephole_def load_program_def

lemma startup_booted:
  "sz < 2 ^ 29 \<Longrightarrow> startup sz [] (machine0 inp) = Inr (booted sz inp)"
  by (simp add: startup_def input_init_def storage_init_def rs_init_def machine0_def
        booted_def malloc_def)

section \<open>The stack across the storage manager and the loader\<close>

lemma bnd_Inr: "(bnd m f = Inr y) = (\<exists>x. m = Inr x \<and> f x = Inr y)"
  by (cases m) auto

lemma car_stack [simp]: "car c (st\<lparr>stack := s\<rparr>) = car c st"
  by (cases c) auto

lemma set_car_stack: "set_car c x st = Inr st' \<Longrightarrow> stack st' = stack st"
  by (cases c) auto

lemma set_cdr_stack: "set_cdr c x st = Inr st' \<Longrightarrow> stack st' = stack st"
  by (cases c) auto

lemma SET_stack: "SET c x y st = Inr st' \<Longrightarrow> stack st' = stack st"
  by (auto simp: SET_def bnd_Inr dest!: set_car_stack set_cdr_stack)

lemma copy_cell_stack: "copy_cell n c st = Inr (c', st') \<Longrightarrow> stack st' = stack st"
  by (auto simp: copy_cell_def bnd_Inr Let_def split: if_splits dest!: set_car_stack set_cdr_stack)

lemma copy_slots_stack:
  "copy_slots n cs st = Inr (cs', st') \<Longrightarrow> stack st' = stack st \<and> length cs' = length cs"
  by (induction cs arbitrary: st cs') (auto simp: bnd_Inr dest!: copy_cell_stack)

lemma rs_copy_stack: "rs_copy n st = Inr st' \<Longrightarrow> length (stack st') = length (stack st)"
  by (auto simp: rs_copy_def bnd_Inr dest!: copy_slots_stack)

lemma copy_save_stack: "copy_save n s st = Inr (s', st') \<Longrightarrow> stack st' = stack st"
  by (cases s) (auto simp: bnd_Inr dest!: copy_cell_stack)

lemma gc_scan_stack: "gc_scan n scan st = Inr st' \<Longrightarrow> stack st' = stack st"
  by (induction n arbitrary: scan st)
     (auto simp: bnd_Inr split: if_splits dest!: copy_cell_stack set_car_stack set_cdr_stack)

lemma gc_resize_stack [simp]: "stack (gc_resize st) = stack st"
  by (simp add: gc_resize_def Let_def)

lemma gc_run_stack:
  "gc_run n s1 s2 st = Inr (ss, st') \<Longrightarrow> length (stack st') = length (stack st)"
proof (induction n arbitrary: s1 s2 st)
  case 0
  then show ?case by simp
next
  case (Suc n)
  then show ?case
    by (auto simp: bnd_Inr Let_def malloc_def split: if_splits option.splits
             dest!: copy_save_stack gc_scan_stack rs_copy_stack)
qed



lemma pair_stack:
  "pair n x y st = Inr (c, st') \<Longrightarrow> length (stack st') = length (stack st)"
  by (auto simp: pair_def bnd_Inr Let_def split: if_splits
           dest!: gc_run_stack set_car_stack set_cdr_stack)

lemma alloc_stack:
  "alloc n k st = Inr (c, st') \<Longrightarrow> length (stack st') = length (stack st)"
  by (auto simp: alloc_def bnd_Inr split: if_splits dest!: gc_run_stack)

lemma read_char_stack: "read_char st = Inr (c, st') \<Longrightarrow> stack st' = stack st"
proof (induction st rule: read_char.induct)
  case (1 st)
  from "1.prems" show ?case
    by (subst (asm) read_char.simps) (auto split: list.splits option.splits dest: "1.IH")
qed

lemma read_bit_stack: "read_bit st = Inr (b, st') \<Longrightarrow> stack st' = stack st"
  by (auto simp: read_bit_def bnd_Inr split: if_splits dest!: read_char_stack)

lemma parse_var_stack: "parse_var n i st = Inr (k, st') \<Longrightarrow> stack st' = stack st"
  by (induction n arbitrary: i st) (auto simp: bnd_Inr split: if_splits dest!: read_bit_stack)

lemma PUSH_len: "PUSH c st = Inr st' \<Longrightarrow> length (stack st') = Suc (length (stack st))"
  by (auto simp: rs_push_def split: if_splits)

lemma DROP_len: "DROP k st = Inr st' \<Longrightarrow> length (stack st') + k = length (stack st)"
  by (auto simp: DROP_def split: if_splits)

lemma POP_len: "POP st = Inr (c, st') \<Longrightarrow> Suc (length (stack st')) = length (stack st)"
  by (auto simp: POP_def PUSHED_def DROP_def bnd_Inr split: if_splits)

lemma set_PUSHED_len:
  "set_PUSHED k c st = Inr st' \<Longrightarrow> length (stack st') = length (stack st)"
  by (auto simp: set_PUSHED_def split: if_splits)

lemma parse_stack:
  "parse n st = Inr (c, st') \<Longrightarrow> length (stack st') = length (stack st)"
proof (induction n arbitrary: st c st')
  case 0
  then show ?case by simp
next
  case (Suc n)
  from Suc.prems obtain b st1 where b: "read_bit st = Inr (b, st1)"
    by (auto simp: bnd_Inr)
  have s1: "stack st1 = stack st" using b by (rule read_bit_stack)
  show ?case
  proof (cases "b \<noteq> 0")
    case True
    with Suc.prems b show ?thesis
      using s1 by (auto simp: bnd_Inr dest!: parse_var_stack)
  next
    case False
    with Suc.prems b obtain b' st2 where b': "read_bit st1 = Inr (b', st2)"
      by (auto simp: bnd_Inr)
    have s2: "stack st2 = stack st" using b' s1 by (auto dest: read_bit_stack)
    show ?thesis
    proof (cases "b' \<noteq> 0")
      case True
      with Suc.prems b b' False obtain f st3 st4 c0 st5 t st6 u where
        "parse n st2 = Inr (f, st3)" "PUSH f st3 = Inr st4" "parse n st4 = Inr (c0, st5)"
        "pair n t c0 st5 = Inr (c, st6)" "POP st6 = Inr (u, st')"
        by (auto simp: bnd_Inr)
      then show ?thesis
        using s2 by (auto dest!: Suc.IH PUSH_len POP_len pair_stack)
    next
      case F2: False
      with Suc.prems b b' False obtain c0 st3 where
        "parse n st2 = Inr (c0, st3)" "pair n LAMBDA c0 st3 = Inr (c, st')"
        by (auto simp: bnd_Inr)
      then show ?thesis
        using s2 by (auto dest!: Suc.IH pair_stack)
    qed
  qed
qed

lemma peephole_stack:
  "peephole n f g st = Inr (r, st') \<Longrightarrow> length (stack st') = length (stack st)"
  unfolding peephole_def
  by (auto simp: bnd_Inr split: if_splits
           dest!: set_car_stack set_cdr_stack SET_stack pair_stack)

lemma unabstract_stack:
  "unabstract n t st = Inr (r, st') \<Longrightarrow> length (stack st') = length (stack st)"
proof (induction n arbitrary: t st r st')
  case 0
  then show ?case by simp
next
  case (Suc n)
  show ?case
  proof (cases "isint t \<or> \<not> ispair t")
    case True
    with Suc.prems show ?thesis
      by (auto split: if_splits dest!: pair_stack)
  next
    case False
    with Suc.prems obtain d st1 a f' st2 st3 p g st4 st5 f st6 where
      "PUSH d st = Inr st1" "unabstract n a st1 = Inr (f', st2)" "PUSH f' st2 = Inr st3"
      "unabstract n p st3 = Inr (g, st4)" "set_PUSHED 1 g st4 = Inr st5"
      "peephole n f g st5 = Inr (r, st6)" "DROP 2 st6 = Inr st'"
      by (auto simp: bnd_Inr)
    then show ?thesis
      by (auto dest!: Suc.IH PUSH_len DROP_len set_PUSHED_len peephole_stack)
  qed
qed

lemma translate_stack:
  "translate n t st = Inr (r, st') \<Longrightarrow> length (stack st') = length (stack st)"
proof (induction n arbitrary: t st r st')
  case 0
  then show ?case by simp
next
  case (Suc n)
  show ?case
  proof (cases "\<not> ispair t")
    case True
    with Suc.prems show ?thesis by auto
  next
    case np: False
    show ?thesis
    proof (cases "car t st = Inr LAMBDA")
      case True
      with np Suc.prems obtain d b st1 where
        "translate n d st = Inr (b, st1)" "unabstract n b st1 = Inr (r, st')"
        by (auto simp: bnd_Inr)
      then show ?thesis
        by (auto dest!: Suc.IH unabstract_stack)
    next
      case False
      with np Suc.prems obtain d st1 a x st2 st3 p s st4 x' st5 where
        "PUSH d st = Inr st1" "translate n a st1 = Inr (x, st2)" "PUSH x st2 = Inr st3"
        "translate n p st3 = Inr (s, st4)" "pair n x' s st4 = Inr (r, st5)"
        "DROP 2 st5 = Inr st'"
        by (auto simp: bnd_Inr)
      then show ?thesis
        by (auto dest!: Suc.IH PUSH_len DROP_len pair_stack)
    qed
  qed
qed


text \<open>
  C9. \<^verbatim>\<open>parse()\<close>, \<^verbatim>\<open>translate(t)\<close> and \<^verbatim>\<open>unabstract(t)\<close> are stack-neutral:
  whenever a call returns, the number of live slots of the reduction stack, and so the
  stack pointer, is what it was at entry.
\<close>

theorem loader_stack_neutral:
  "(parse n st = Inr (c, st') \<longrightarrow> length (stack st') = length (stack st) \<and> sp st' = sp st) \<and>
   (translate n t st = Inr (c, st') \<longrightarrow> length (stack st') = length (stack st) \<and> sp st' = sp st) \<and>
   (unabstract n t st = Inr (c, st') \<longrightarrow> length (stack st') = length (stack st) \<and> sp st' = sp st)"
  by (auto simp: sp_def dest: parse_stack translate_stack unabstract_stack)


theorem loader_stack_neutral_witness:
  "(case parse 20 (booted 4 [0x68]) of Inl e \<Rightarrow> False
    | Inr (c, st') \<Rightarrow> length (stack st') = length (stack (booted 4 [0x68]))) \<and>
   (case translate 20 (fst (loaded 4 [0x68])) (snd (loaded 4 [0x68])) of Inl e \<Rightarrow> False
    | Inr (c, st') \<Rightarrow> length (stack st') = length (stack (snd (loaded 4 [0x68])))) \<and>
   (case unabstract 20 (fst (loaded 4 [0x68])) (snd (loaded 4 [0x68])) of Inl e \<Rightarrow> False
    | Inr (c, st') \<Rightarrow> length (stack st') = length (stack (snd (loaded 4 [0x68]))))"
proof -
  have "\<exists>c m. parse 20 (booted 4 [0x68]) = Inr (c, m)"
    by (simp add: exec)
  then obtain c1 m1 where a: "parse 20 (booted 4 [0x68]) = Inr (c1, m1)"
    by blast
  have "\<exists>c m. translate 20 (fst (loaded 4 [0x68])) (snd (loaded 4 [0x68])) = Inr (c, m)"
    by (simp add: exec loaded_def)
  then obtain c2 m2 where
    b: "translate 20 (fst (loaded 4 [0x68])) (snd (loaded 4 [0x68])) = Inr (c2, m2)"
    by blast
  have "\<exists>c m. unabstract 20 (fst (loaded 4 [0x68])) (snd (loaded 4 [0x68])) = Inr (c, m)"
    by (simp add: exec loaded_def)
  then obtain c3 m3 where
    c: "unabstract 20 (fst (loaded 4 [0x68])) (snd (loaded 4 [0x68])) = Inr (c3, m3)"
    by blast
  show ?thesis
    using loader_stack_neutral [where n = 20 and st = "booted 4 [0x68]" and c = c1 and st' = m1]
      loader_stack_neutral [where n = 20 and st = "snd (loaded 4 [0x68])" and c = c2 and st' = m2
        and t = "fst (loaded 4 [0x68])"]
      loader_stack_neutral [where n = 20 and st = "snd (loaded 4 [0x68])" and c = c3 and st' = m3
        and t = "fst (loaded 4 [0x68])"]
      a b c
    by simp
qed

section \<open>The I/O rules of the reducer\<close>




lemma read_char_eof:
  "input_fp st = [] \<Longrightarrow> input_argv st = [] \<Longrightarrow> read_char st = Inr (EOF, st)"
  by (simp add: read_char.simps)

lemma read_char_byte:
  "input_fp st = b # bs \<Longrightarrow> read_char st = Inr (uint b, st\<lparr>input_fp := bs\<rparr>)"
  by (simp add: read_char.simps)

lemma SET_val:
  "SET (PairC a) (val x) (val y) st = Inr (st\<lparr>mem := (mem st)(a := (x, y))\<rparr>)"
  by (simp add: SET_def val_def)

lemmas stack_ops = POP_def PUSHED_def DROP_def set_PUSHED_def ARG_def set_ARG_def

text \<open>
  C5. When \<^verbatim>\<open>READ NIL f\<close> is reduced, a byte is requested from \<^verbatim>\<open>read_char\<close>. At the
  end of the input the cell of \<^verbatim>\<open>READ NIL\<close> becomes \<^verbatim>\<open>I KI\<close>, no error is raised, and the
  next step (the rule of \<^verbatim>\<open>I\<close>) leaves \<^verbatim>\<open>KI\<close> applied to \<^verbatim>\<open>f\<close>. Otherwise the cell
  of \<^verbatim>\<open>READ NIL\<close> becomes \<^verbatim>\<open>(CONS CHAR(b)) (READ NIL)\<close>, built in the two cells that
  \<^verbatim>\<open>alloc(2)\<close> returned, so that the redex is \<^verbatim>\<open>CONS CHAR(b) (READ NIL) f\<close>.
\<close>

theorem READ_rewrites:
  "(read_char st = Inr (EOF, st1) \<and> stack st1 = t # PairC a1 # rest \<longrightarrow>
      (\<exists>st'. red_READ n st = Inr st' \<and> stack st' = PairC a1 # rest \<and> io st' = io st1 \<and>
          mem st' = (mem st1)(a1 := (COMB_I, COMB_KI)) \<and>
          (\<exists>st''. red_I (st'\<lparr>stack := COMB_I # stack st'\<rparr>) = Inr st'' \<and>
             stack st'' = COMB_KI # rest \<and> mem st'' = mem st'))) \<and>
   (read_char st = Inr (c, st1) \<and> c \<noteq> EOF \<and> alloc n 2 st1 = Inr (PairC a, st2) \<and>
    stack st2 = t # PairC a1 # rest \<and> a1 \<noteq> a \<and> a1 \<noteq> a + 1 \<longrightarrow>
      (\<exists>st'. red_READ n st = Inr st' \<and> stack st' = PairC a1 # rest \<and> io st' = io st2 \<and>
          mem st' a1 = (PairC a, PairC (a + 1)) \<and>
          mem st' a = (COMB_CONS, CharC c) \<and> mem st' (a + 1) = (COMB_READ, NIL) \<and>
          (\<forall>q. q \<noteq> a1 \<and> q \<noteq> a \<and> q \<noteq> a + 1 \<longrightarrow> mem st' q = mem st2 q)))"
  by (auto simp: red_READ_def red_I_def stack_ops SET_val mkchar_def io_def)




lemma eval_loop_PUTC:
  "unspine n st = Inr st1 \<Longrightarrow> stack st1 = COMB_PUTC # rest \<Longrightarrow> APPLICABLE 3 bottom st1 \<Longrightarrow>
   eval_loop (Suc n) bottom st =
     bnd (putc_begin n st1) (\<lambda>(r, st2).
     bnd (eval n r st2) (\<lambda>st3.
     bnd (putc_end st3) (\<lambda>st4. eval_loop n bottom (st4\<lparr>reductions := reductions st4 + 1\<rparr>))))"
  apply (simp add: PUSHED_def eval_def)
  apply (cases "putc_begin n st1")
   apply simp
  apply (simp add: split_def)
  subgoal for x
    apply (cases "PUSH (fst x) (snd x)")
     apply simp
    apply simp
    subgoal for y
      apply (cases "eval_loop n (length (stack (snd x))) y")
       apply simp
      apply simp
      subgoal for z
        by (cases "putc_end z") auto
      done
    done
  done

text \<open>
  C4. The \<^verbatim>\<open>PUTC\<close> branch builds \<^verbatim>\<open>x INC Int(0)\<close>, evaluates it with a nested
  \<^verbatim>\<open>eval\<close> and inspects the cell left at \<^verbatim>\<open>TOP\<close>: a cell that is no Int is the fatal
  error "invalid output format (result was not a number)", an Int of 256 or more is the
  fatal error "invalid character", and an Int from 0 to 255 is written to the standard
  output as that byte, after which the root of the redex has become \<^verbatim>\<open>WRITE y\<close>.
\<close>

theorem PUTC_checks_result:
  "(unspine n st0 = Inr st1 \<and> stack st1 = COMB_PUTC # rest0 \<and> APPLICABLE 3 bottom st1 \<longrightarrow>
      eval_loop (Suc n) bottom st0 =
        bnd (putc_begin n st1) (\<lambda>(r, st2).
        bnd (eval n r st2) (\<lambda>st3.
        bnd (putc_end st3) (\<lambda>st4.
          eval_loop n bottom (st4\<lparr>reductions := reductions st4 + 1\<rparr>))))) \<and>
   (alloc n 2 st1 = Inr (PairC a, st2) \<and> stack st2 = t # PairC a1 # rest1 \<longrightarrow>
      (\<exists>st3. putc_begin n st1 = Inr (PairC (a + 1), st3) \<and> stack st3 = rest1 \<and>
         mem st3 (a + 1) = (PairC a, IntC 0) \<and> mem st3 a = (snd (mem st2 a1), COMB_INC))) \<and>
   (stack st = v # rest \<and> \<not> isint v \<longrightarrow>
      putc_end st = Inl NotANumber) \<and>
   (stack st = v # rest \<and> isint v \<and> 256 \<le> intof v \<longrightarrow>
      putc_end st = Inl (InvalidCharacter (intof v))) \<and>
   (stack st = IntC k # PairC a2 # PairC a3 # rest \<and> 0 \<le> k \<and> k < 256 \<longrightarrow>
      (\<exists>st'. putc_end st = Inr st' \<and> stdout st' = stdout st @ [word_of_int k] \<and>
         uint (word_of_int k :: byte) = k \<and> stack st' = PairC a3 # rest \<and>
         mem st' a3 = (COMB_WRITE, snd (mem st a2)) \<and>
         (\<forall>q. q \<noteq> a3 \<longrightarrow> mem st' q = mem st q))) \<and>
   take 21 (message NotANumber) = ''invalid output format'' \<and>
   take 17 (message (InvalidCharacter k)) = ''invalid character''"
proof -
  have u: "0 \<le> k \<and> k < 256 \<longrightarrow> uint (word_of_int k :: byte) = k"
    by (simp add: uint_word_of_int take_bit_int_eq_self)
  show ?thesis
    using u
    by (auto simp: eval_loop_PUTC putc_begin_def putc_end_def putchar_def stack_ops SET_val
          SET_def val_def mkint_def
        simp del: eval_loop.simps)
qed


lemmas exec_eval = eval_def eval_print_def run_def red_I_def red_S_def red_K_def red_B_def
  red_C_def red_SP_def red_BS_def red_CP_def red_IOTA_def red_KI_def red_CONS_def red_READ_def
  red_WRITE_def red_CHAR_def putc_begin_def putc_end_def putchar_def inc_begin_def inc_end_def

theorem READ_rewrites_witness:
  "(\<exists>st'. red_READ 5 (read_redex []) = Inr st' \<and> stack st' = [PairC 1, PairC 2] \<and>
      mem st' 1 = (COMB_I, COMB_KI) \<and> mem st' 2 = (PairC 1, COMB_K) \<and>
      (\<exists>st''. red_I (st'\<lparr>stack := COMB_I # stack st'\<rparr>) = Inr st'' \<and>
         stack st'' = [COMB_KI, PairC 2])) \<and>
   (\<exists>st'. red_READ 5 (read_redex [0x41]) = Inr st' \<and> stack st' = [PairC 1, PairC 2] \<and>
      mem st' 1 = (PairC 3, PairC 4) \<and> mem st' 3 = (COMB_CONS, CharC 0x41) \<and>
      mem st' 4 = (COMB_READ, NIL) \<and> mem st' 2 = (PairC 1, COMB_K))"
proof -
  have e: "read_char (read_redex []) = Inr (EOF, read_redex [])"
    by (simp add: read_redex_def booted_def machine0_def read_char.simps)
  have s: "stack (read_redex []) = COMB_READ # PairC 1 # [PairC 2]"
    by (simp add: read_redex_def)
  have c: "read_char (read_redex [0x41]) = Inr (0x41, (read_redex [0x41])\<lparr>input_fp := []\<rparr>)"
    by (simp add: read_redex_def booted_def machine0_def read_char.simps)
  have a: "alloc 5 2 ((read_redex [0x41])\<lparr>input_fp := []\<rparr>) =
      Inr (PairC 3, (read_redex [0x41])\<lparr>input_fp := [], free_ptr := 5\<rparr>)"
    by (simp add: alloc_def read_redex_def booted_def machine0_def)
  have s2: "stack ((read_redex [0x41])\<lparr>input_fp := [], free_ptr := 5\<rparr>) =
      COMB_READ # PairC 1 # [PairC 2]"
    by (simp add: read_redex_def)
  have m: "mem (read_redex []) 2 = (PairC 1, COMB_K)"
    "mem ((read_redex [0x41])\<lparr>input_fp := [], free_ptr := 5\<rparr>) 2 = (PairC 1, COMB_K)"
    by (simp_all add: read_redex_def)
  have w1: "\<exists>st'. red_READ 5 (read_redex []) = Inr st' \<and> stack st' = [PairC 1, PairC 2] \<and>
      mem st' 1 = (COMB_I, COMB_KI) \<and> mem st' 2 = (PairC 1, COMB_K) \<and>
      (\<exists>st''. red_I (st'\<lparr>stack := COMB_I # stack st'\<rparr>) = Inr st'' \<and>
         stack st'' = [COMB_KI, PairC 2])"
    using READ_rewrites [where st = "read_redex []" and ?st1.0 = "read_redex []" and t = COMB_READ
      and ?a1.0 = 1 and rest = "[PairC 2]" and n = 5, THEN conjunct1] e s m
    by auto
  have w2: "\<exists>st'. red_READ 5 (read_redex [0x41]) = Inr st' \<and> stack st' = [PairC 1, PairC 2] \<and>
      mem st' 1 = (PairC 3, PairC 4) \<and> mem st' 3 = (COMB_CONS, CharC 0x41) \<and>
      mem st' 4 = (COMB_READ, NIL) \<and> mem st' 2 = (PairC 1, COMB_K)"
    using READ_rewrites [where st = "read_redex [0x41]"
      and ?st1.0 = "(read_redex [0x41])\<lparr>input_fp := []\<rparr>" and n = 5 and c = "0x41" and a = 3
      and ?st2.0 = "(read_redex [0x41])\<lparr>input_fp := [], free_ptr := 5\<rparr>" and t = COMB_READ
      and ?a1.0 = 1 and rest = "[PairC 2]", THEN conjunct2] c a s2 m
    by (auto simp: EOF_def)
  from w1 w2 show ?thesis by blast
qed


theorem PUTC_checks_result_witness:
  "eval_loop 10 0 putc_redex = Inl NotANumber \<and>
   (\<exists>st3. putc_begin 9 (putc_redex\<lparr>stack := [COMB_PUTC, PairC 1, PairC 2, PairC 3]\<rparr>) =
        Inr (PairC 5, st3) \<and>
      stack st3 = [PairC 2, PairC 3] \<and> mem st3 5 = (PairC 4, IntC 0) \<and>
      mem st3 4 = (COMB_K, COMB_INC)) \<and>
   putc_end (putc_value COMB_INC) = Inl NotANumber \<and>
   putc_end (putc_value (IntC 256)) = Inl (InvalidCharacter 256) \<and>
   (\<exists>st'. putc_end (putc_value (IntC 255)) = Inr st' \<and> stdout st' = [255] \<and>
      stack st' = [PairC 3] \<and> mem st' 3 = (COMB_WRITE, COMB_S))"
proof -
  let ?st1 = "putc_redex\<lparr>stack := [COMB_PUTC, PairC 1, PairC 2, PairC 3]\<rparr>"
  have u: "unspine 9 putc_redex = Inr ?st1"
    by (simp add: exec putc_redex_def putc_cells_def)
  have s1: "stack ?st1 = COMB_PUTC # [PairC 1, PairC 2, PairC 3]"
    by simp
  have ap: "APPLICABLE 3 0 ?st1"
    by (simp add: APPLICABLE_def)
  have w1: "eval_loop 10 0 putc_redex = Inl NotANumber"
    using PUTC_checks_result [where n = 9 and ?st0.0 = putc_redex and ?st1.0 = ?st1
      and ?rest0.0 = "[PairC 1, PairC 2, PairC 3]" and bottom = 0, THEN conjunct1] u s1 ap
    by (simp add: exec exec_eval putc_redex_def putc_cells_def)
  have al: "alloc 9 2 ?st1 = Inr (PairC 4, ?st1\<lparr>free_ptr := 6\<rparr>)"
    by (simp add: alloc_def putc_redex_def booted_def machine0_def)
  have s2: "stack (?st1\<lparr>free_ptr := 6\<rparr>) = COMB_PUTC # PairC 1 # [PairC 2, PairC 3]"
    by simp
  have m1: "mem (?st1\<lparr>free_ptr := 6\<rparr>) 1 = (COMB_PUTC, COMB_K)"
    by (simp add: putc_redex_def putc_cells_def)
  have w2: "\<exists>st3. putc_begin 9 ?st1 = Inr (PairC 5, st3) \<and>
      stack st3 = [PairC 2, PairC 3] \<and> mem st3 5 = (PairC 4, IntC 0) \<and>
      mem st3 4 = (COMB_K, COMB_INC)"
    using PUTC_checks_result [where n = 9 and ?st1.0 = ?st1 and a = 4
      and ?st2.0 = "?st1\<lparr>free_ptr := 6\<rparr>" and t = COMB_PUTC and ?a1.0 = 1
      and ?rest1.0 = "[PairC 2, PairC 3]", THEN conjunct2, THEN conjunct1] al s2 m1
    by auto
  have sv: "\<And>v. stack (putc_value v) = v # [PairC 2, PairC 3]"
    by (simp add: putc_value_def)
  have w3: "putc_end (putc_value COMB_INC) = Inl NotANumber"
    using PUTC_checks_result [where st = "putc_value COMB_INC" and v = COMB_INC
      and rest = "[PairC 2, PairC 3]", THEN conjunct2, THEN conjunct2, THEN conjunct1] sv
    by simp
  have w4: "putc_end (putc_value (IntC 256)) = Inl (InvalidCharacter 256)"
    using PUTC_checks_result [where st = "putc_value (IntC 256)" and v = "IntC 256"
      and rest = "[PairC 2, PairC 3]",
      THEN conjunct2, THEN conjunct2, THEN conjunct2, THEN conjunct1] sv
    by simp
  have sv': "stack (putc_value (IntC 255)) = IntC 255 # PairC 2 # PairC 3 # []"
    by (simp add: putc_value_def)
  have mv: "mem (putc_value (IntC 255)) 2 = (PairC 1, COMB_S)"
    "stdout (putc_value (IntC 255)) = []"
    by (simp_all add: putc_value_def putc_cells_def booted_def machine0_def)
  have w5: "\<exists>st'. putc_end (putc_value (IntC 255)) = Inr st' \<and> stdout st' = [255] \<and>
      stack st' = [PairC 3] \<and> mem st' 3 = (COMB_WRITE, COMB_S)"
    using PUTC_checks_result [where st = "putc_value (IntC 255)" and k = 255 and ?a2.0 = 2
      and ?a3.0 = 3 and rest = "[]",
      THEN conjunct2, THEN conjunct2, THEN conjunct2, THEN conjunct2, THEN conjunct1] sv' mv
    by auto
  from w1 w2 w3 w4 w5 show ?thesis by blast
qed



section \<open>The input of the running program\<close>

lemma set_car_io: "set_car c x st = Inr st' \<Longrightarrow> io st' = io st"
  by (cases c) (auto simp: io_def)

lemma set_cdr_io: "set_cdr c x st = Inr st' \<Longrightarrow> io st' = io st"
  by (cases c) (auto simp: io_def)

lemma io_upd [simp]:
  "io (st\<lparr>free_ptr := x\<rparr>) = io st" "io (st\<lparr>stack := s\<rparr>) = io st"
  "io (st\<lparr>mem := m\<rparr>) = io st" "io (st\<lparr>heap_area := x\<rparr>) = io st"
  "io (st\<lparr>heap_size := x\<rparr>) = io st" "io (st\<lparr>next_heap_size := x\<rparr>) = io st"
  "io (st\<lparr>free_area := y\<rparr>) = io st" "io (st\<lparr>brk := x\<rparr>) = io st"
  "io (st\<lparr>reductions := x\<rparr>) = io st"
  by (simp_all add: io_def)

lemma copy_cell_io: "copy_cell n c st = Inr (c', st') \<Longrightarrow> io st' = io st"
  by (auto simp: copy_cell_def bnd_Inr Let_def split: if_splits dest!: set_car_io set_cdr_io)

lemma copy_slots_io: "copy_slots n cs st = Inr (cs', st') \<Longrightarrow> io st' = io st"
  by (induction cs arbitrary: st cs') (auto simp: bnd_Inr dest!: copy_cell_io)

lemma rs_copy_io: "rs_copy n st = Inr st' \<Longrightarrow> io st' = io st"
  by (auto simp: rs_copy_def bnd_Inr dest!: copy_slots_io)

lemma copy_save_io: "copy_save n s st = Inr (s', st') \<Longrightarrow> io st' = io st"
  by (cases s) (auto simp: bnd_Inr dest!: copy_cell_io)

lemma gc_scan_io: "gc_scan n scan st = Inr st' \<Longrightarrow> io st' = io st"
  by (induction n arbitrary: scan st)
     (auto simp: bnd_Inr split: if_splits dest!: copy_cell_io set_car_io set_cdr_io)

lemma gc_resize_io [simp]: "io (gc_resize st) = io st"
  by (simp add: gc_resize_def Let_def io_def)

lemma gc_run_io: "gc_run n s1 s2 st = Inr (ss, st') \<Longrightarrow> io st' = io st"
proof (induction n arbitrary: s1 s2 st)
  case 0
  then show ?case by simp
next
  case (Suc n)
  from Suc.prems obtain p st0 st2 s1' st3 s2' st4 st5 where
    m: "(case free_area st of None \<Rightarrow>
           (case malloc (next_heap_size st) st of None \<Rightarrow> Inl (CannotAllocate (next_heap_size st))
            | Some (p, st0) \<Rightarrow> Inr (p, st0))
         | Some p \<Rightarrow> Inr (p, st)) = Inr (p, st0)"
    and r: "rs_copy n (st0\<lparr>free_ptr := p, free_area := Some (heap_area st0 - heap_size st0),
              heap_area := p + next_heap_size st0\<rparr>) = Inr st2"
    and c1: "copy_save n s1 st2 = Inr (s1', st3)"
    and c2: "copy_save n s2 st3 = Inr (s2', st4)"
    and g: "gc_scan n p st4 = Inr st5"
    and f: "(if heap_area (gc_resize st5) \<le> free_ptr (gc_resize st5)
             then gc_run n s1' s2' (gc_resize st5) else Inr ((s1', s2'), gc_resize st5)) = Inr (ss, st')"
    by (auto simp: bnd_Inr Let_def)
  from m have "io st0 = io st"
    by (auto simp: malloc_def io_def split: option.splits if_splits)
  moreover from r have "io st2 = io st0"
    by (auto dest!: rs_copy_io simp: io_def)
  moreover from c1 c2 g have "io st5 = io st2"
    by (auto dest!: copy_save_io gc_scan_io)
  moreover from f have "io st' = io st5"
    by (auto split: if_splits dest!: Suc.IH)
  ultimately show ?case by simp
qed

lemma alloc_io: "alloc n k st = Inr (c, st') \<Longrightarrow> io st' = io st"
  by (auto simp: alloc_def bnd_Inr split: if_splits dest!: gc_run_io)

lemma set_bits_fields [simp]:
  "input_fp (set_bits c b st) = input_fp st" "input_argv (set_bits c b st) = input_argv st"
  "stdin (set_bits c b st) = stdin st"
  by (simp_all add: set_bits_def)

lemma set_bits_swap:
  "(set_bits c b st)\<lparr>input_fp := f\<rparr> = set_bits c b (st\<lparr>input_fp := f\<rparr>)"
  "(set_bits c b st)\<lparr>input_argv := av, input_fp := f\<rparr> =
     set_bits c b (st\<lparr>input_argv := av, input_fp := f\<rparr>)"
  by (simp_all add: set_bits_def)

lemma read_char_bits:
  "read_char (set_bits c b st) = map_sum id (map_prod id (set_bits c b)) (read_char st)"
proof (induction st rule: read_char.induct)
  case (1 st)
  show ?case
    using "1.IH"
    by (auto simp: read_char.simps [of st] read_char.simps [of "set_bits c b st"] set_bits_swap
          split: list.splits option.splits)
qed

text \<open>
  C10. \<^verbatim>\<open>READ\<close> takes whole bytes: \<^verbatim>\<open>read_char\<close> neither reads nor writes the bit
  buffer (\<^verbatim>\<open>input.ch\<close>, \<^verbatim>\<open>input.bit\<close>) of \<^verbatim>\<open>read_bit\<close>, and whatever that buffer
  holds, the \<^verbatim>\<open>READ\<close> rule puts the next whole byte of the stream into the character
  cell it builds and leaves the buffer as it was. So the bits that the parser left
  unread in its last byte never reach the program.
\<close>

theorem READ_byte_aligned:
  "read_char (set_bits c b st) = map_sum id (map_prod id (set_bits c b)) (read_char st) \<and>
   (input_fp st = x # xs \<and> alloc n 2 (st\<lparr>input_fp := xs\<rparr>) = Inr (PairC a, st2) \<and>
    stack st2 = t # PairC a1 # rest \<and> a1 \<noteq> a \<and> a1 \<noteq> a + 1 \<longrightarrow>
      (\<exists>st'. red_READ n st = Inr st' \<and> mem st' a = (COMB_CONS, CharC (uint x)) \<and>
         input_fp st' = xs \<and> input_ch st' = input_ch st \<and> input_bit st' = input_bit st))"
proof -
  have "\<exists>st'. red_READ n st = Inr st' \<and> mem st' a = (COMB_CONS, CharC (uint x)) \<and>
         input_fp st' = xs \<and> input_ch st' = input_ch st \<and> input_bit st' = input_bit st"
    if h: "input_fp st = x # xs" "alloc n 2 (st\<lparr>input_fp := xs\<rparr>) = Inr (PairC a, st2)"
      "stack st2 = t # PairC a1 # rest" "a1 \<noteq> a" "a1 \<noteq> a + 1"
  proof -
    have rc: "read_char st = Inr (uint x, st\<lparr>input_fp := xs\<rparr>)"
      using h(1) by (rule read_char_byte)
    have "0 \<le> uint x"
      by simp
    then have ne: "uint x \<noteq> EOF"
      unfolding EOF_def by linarith
    from alloc_io [OF h(2)] have i: "io st2 = io (st\<lparr>input_fp := xs\<rparr>)" .
    from READ_rewrites [where st = st and ?st1.0 = "st\<lparr>input_fp := xs\<rparr>" and c = "uint x"
        and n = n and a = a and ?st2.0 = st2 and t = t and ?a1.0 = a1 and rest = rest,
        THEN conjunct2] rc ne h
    obtain st' where s: "red_READ n st = Inr st'" "mem st' a = (COMB_CONS, CharC (uint x))"
      "io st' = io st2"
      by auto
    with i show ?thesis
      by (auto simp: io_def)
  qed
  then show ?thesis
    using read_char_bits by blast
qed

theorem READ_byte_aligned_witness:
  "\<exists>st'. red_READ 5 (set_bits 0x2F 8 (read_redex [0x41])) = Inr st' \<and>
     mem st' 3 = (COMB_CONS, CharC 0x41) \<and> input_fp st' = [] \<and> input_ch st' = 0x2F \<and>
     input_bit st' = 8"
proof -
  let ?st = "set_bits 0x2F 8 (read_redex [0x41])"
  have f: "input_fp ?st = 0x41 # []"
    by (simp add: read_redex_def booted_def machine0_def set_bits_def)
  have a: "alloc 5 2 (?st\<lparr>input_fp := []\<rparr>) = Inr (PairC 3, ?st\<lparr>input_fp := [], free_ptr := 5\<rparr>)"
    by (simp add: alloc_def read_redex_def booted_def machine0_def set_bits_def)
  have s: "stack (?st\<lparr>input_fp := [], free_ptr := 5\<rparr>) = COMB_READ # PairC 1 # [PairC 2]"
    by (simp add: read_redex_def set_bits_def)
  have b: "input_ch ?st = 0x2F" "input_bit ?st = 8"
    by (simp_all add: set_bits_def)
  from READ_byte_aligned [where st = ?st and x = "0x41" and xs = "[]" and n = 5 and a = 3
      and ?st2.0 = "?st\<lparr>input_fp := [], free_ptr := 5\<rparr>" and t = COMB_READ and ?a1.0 = 1
      and rest = "[PairC 2]", THEN conjunct2] f a s b
  show ?thesis
    by auto
qed

lemma parser_leaves_bits:
  "\<exists>st. load_program 20 (booted 8 [0x2F, 0x41]) = Inr (COMB_I, st) \<and>
     input_ch st = 0x2F \<and> input_bit st = 8 \<and> input_fp st = [0x41]"
  by (simp add: exec)

lemma leftover_bits_not_delivered:
  "\<exists>st. run 60 64 [] (machine0 [0x2F, 0x02]) = Inr st \<and> stdout st = [0x02] \<and>
     reductions st = 18"
  by (simp add: exec exec_eval)

section \<open>The heap size and the outcome of a run\<close>

text \<open>
  C2. With a first heap of five cells, the program \<^verbatim>\<open>\<lambda>. (\<lambda>. 1) 0\<close> (bytes 0x13 0x40)
  makes \<^verbatim>\<open>alloc(2)\<close> fail its assertion: the collection that \<^verbatim>\<open>alloc\<close> starts
  leaves one free cell, and \<^verbatim>\<open>gc_run\<close> collects again only when no cell is free.
\<close>

theorem alloc_assertion_fails:
  "run 50 5 [] (machine0 [0x13, 0x40]) = Inl AssertAlloc"
  by (simp add: exec exec_eval)

text \<open>
  C8. The outcome of a run depends on the size of the first heap: the same program on
  the same input writes its input with six cells and stops on the assertion of
  \<^verbatim>\<open>alloc\<close> with five; and \<^verbatim>\<open>(\<lambda>. 0) (\<lambda>. 0)\<close> (bytes 0x48 0x80) on the input byte 0
  writes it with five cells, while with four the collection started by the first
  \<^verbatim>\<open>pair\<close> of \<^verbatim>\<open>eval_print\<close> does not see \<^verbatim>\<open>root\<close>, which is left behind.
\<close>

theorem outcome_depends_on_heap_size:
  "run 50 5 [] (machine0 [0x13, 0x40, 0x01]) = Inl AssertAlloc \<and>
   (\<exists>st. run 50 6 [] (machine0 [0x13, 0x40, 0x01]) = Inr st \<and> stdout st = [0x01] \<and>
      reductions st = 16) \<and>
   run 50 4 [] (machine0 [0x48, 0x80, 0x00]) = Inl Undefined \<and>
   (\<exists>st. run 50 5 [] (machine0 [0x48, 0x80, 0x00]) = Inr st \<and> stdout st = [0x00] \<and>
      reductions st = 13)"
  by (simp add: exec exec_eval)

end
